theory Spec2Isabelle
  imports Main "HOL-Library.Sublist"
begin

section \<open>Python string primitives used by gitguard-prepare.py\<close>

text \<open>
  A Python \<open>str\<close> is modelled as a \<open>string\<close>, each \<open>char\<close> standing for one code
  point below 256. Console output (\<open>print\<close>) is not part of the model.
\<close>

definition lower_char :: "char \<Rightarrow> char" where
  \<comment> \<open>\<open>str.lower\<close> on one code point below 256: A-Z and the accented capitals
      0xC0-0xDE (without the multiplication sign 0xD7) move up by 32.\<close>
  "lower_char c =
     (let n = (of_char c :: nat)
      in if (65 \<le> n \<and> n \<le> 90) \<or> (192 \<le> n \<and> n \<le> 222 \<and> n \<noteq> 215)
         then char_of (n + 32) else c)"

definition py_lower :: "string \<Rightarrow> string" where
  "py_lower s = map lower_char s"

definition is_space :: "char \<Rightarrow> bool" where
  \<comment> \<open>\<open>str.isspace\<close> on one code point below 256.\<close>
  "is_space c =
     (let n = (of_char c :: nat)
      in (9 \<le> n \<and> n \<le> 13) \<or> (28 \<le> n \<and> n \<le> 32) \<or> n = 133 \<or> n = 160)"

definition py_strip :: "string \<Rightarrow> string" where
  \<comment> \<open>\<open>s.strip()\<close>: whitespace removed at both ends.\<close>
  "py_strip s = rev (dropWhile is_space (rev (dropWhile is_space s)))"

fun py_in :: "string \<Rightarrow> string \<Rightarrow> bool" where
  \<comment> \<open>\<open>p in s\<close> for strings: \<open>p\<close> occurs in \<open>s\<close> as a contiguous run.\<close>
  "py_in p [] = (p = [])"
| "py_in p (c # cs) = (prefix p (c # cs) \<or> py_in p cs)"

definition startswith :: "string \<Rightarrow> string \<Rightarrow> bool" where
  "startswith s p = prefix p s"

fun split_acc :: "char \<Rightarrow> string \<Rightarrow> string \<Rightarrow> string list" where
  "split_acc sep cur [] = [rev cur]"
| "split_acc sep cur (c # cs) =
     (if c = sep then rev cur # split_acc sep [] cs else split_acc sep (c # cur) cs)"

definition py_split :: "char \<Rightarrow> string \<Rightarrow> string list" where
  \<comment> \<open>\<open>s.split(sep)\<close> for a one-character separator: never empty, keeps empty pieces.\<close>
  "py_split sep s = split_acc sep [] s"

fun split1_acc :: "char \<Rightarrow> string \<Rightarrow> string \<Rightarrow> string list" where
  "split1_acc sep cur [] = [rev cur]"
| "split1_acc sep cur (c # cs) =
     (if c = sep then [rev cur, cs] else split1_acc sep (c # cur) cs)"

definition py_split1 :: "char \<Rightarrow> string \<Rightarrow> string list" where
  \<comment> \<open>\<open>s.split(sep, 1)\<close>: cut at the first separator only.\<close>
  "py_split1 sep s = split1_acc sep [] s"

fun py_join :: "string \<Rightarrow> string list \<Rightarrow> string" where
  \<comment> \<open>\<open>sep.join(xs)\<close>\<close>
  "py_join sep [] = []"
| "py_join sep [x] = x"
| "py_join sep (x # y # ys) = x @ sep @ py_join sep (y # ys)"

definition path_name :: "string \<Rightarrow> string" where
  \<comment> \<open>\<open>Path(file).name\<close> on a POSIX path: the last component, empty components
      and \<open>.\<close> components dropped; the empty string when nothing is left.\<close>
  "path_name f =
     (let parts = filter (\<lambda>p. p \<noteq> [] \<and> p \<noteq> ''.'') (py_split CHR ''/'' f)
      in if parts = [] then [] else last parts)"

section \<open>detect_change_types\<close>

definition is_test_path :: "string \<Rightarrow> bool" where
  "is_test_path file_lower =
     (\<exists>pattern \<in> set [''.test.'', ''.spec.'', ''/tests/'']. py_in pattern file_lower)"

definition is_docs_path :: "string \<Rightarrow> bool" where
  "is_docs_path file_lower =
     (\<exists>pattern \<in> set [''.md'', ''readme'', ''docs/'']. py_in pattern file_lower)"

definition is_style_path :: "string \<Rightarrow> bool" where
  "is_style_path file_lower =
     (\<exists>pattern \<in> set [''.css'', ''.scss'', ''.styled.'']. py_in pattern file_lower)"

definition is_chore_name :: "string \<Rightarrow> bool" where
  "is_chore_name name =
     (\<exists>pattern \<in> set [''package.json'', ''.config.'', ''tsconfig'']. py_in pattern name)"

definition is_fix_path :: "string \<Rightarrow> bool" where
  "is_fix_path file_lower =
     (\<exists>word \<in> set [''fix'', ''bug'', ''patch'']. py_in word file_lower)"

definition classify_file :: "string \<Rightarrow> string option" where
  \<comment> \<open>The body of the loop over \<open>files\<close>: the label one file adds to \<open>types\<close>,
      or \<open>None\<close> when no branch of the if/elif chain is taken.\<close>
  "classify_file file =
     (let file_lower = py_lower file;
          name = py_lower (path_name file)
      in if is_test_path file_lower then Some ''test''
         else if is_docs_path file_lower then Some ''docs''
         else if is_style_path file_lower then Some ''style''
         else if is_chore_name name then Some ''chore''
         else if is_fix_path file_lower then Some ''fix''
         else None)"

definition add_type :: "string set \<Rightarrow> string \<Rightarrow> string set" where
  "add_type types file = (case classify_file file of None \<Rightarrow> types | Some l \<Rightarrow> insert l types)"

definition detect_change_types :: "string list \<Rightarrow> string set" where
  "detect_change_types files =
     (let types = foldl add_type {} files
      in if types = {} then {''feat''} else types)"

section \<open>Exceptions and JSON values\<close>

datatype error =
    CalledProcessError | IOError | ValueError | StopIteration
  | KeyError | TypeError | IndexError | EOFError

text \<open>
  What \<open>json.loads\<close> returns: \<open>JNull\<close> is Python's \<open>None\<close>, \<open>JObj\<close> holds the items
  of a \<open>dict\<close> in insertion order. Numbers are integers here.
\<close>

datatype json =
    JNull | JBool bool | JNum int | JStr string
  | JArr "json list" | JObj "(string \<times> json) list"

fun truthy :: "json \<Rightarrow> bool" where
  \<comment> \<open>Python's truth value, as \<open>if suggestions:\<close> tests it.\<close>
  "truthy JNull = False"
| "truthy (JBool b) = b"
| "truthy (JNum n) = (n \<noteq> 0)"
| "truthy (JStr s) = (s \<noteq> [])"
| "truthy (JArr xs) = (xs \<noteq> [])"
| "truthy (JObj kvs) = (kvs \<noteq> [])"

fun py_iter :: "json \<Rightarrow> error + json list" where
  \<comment> \<open>The elements a \<open>for\<close> loop (or \<open>enumerate\<close>) visits.\<close>
  "py_iter (JArr xs) = Inr xs"
| "py_iter (JObj kvs) = Inr (map (\<lambda>kv. JStr (fst kv)) kvs)"
| "py_iter (JStr s) = Inr (map (\<lambda>c. JStr [c]) s)"
| "py_iter _ = Inl TypeError"

fun py_getitem :: "json \<Rightarrow> string \<Rightarrow> error + json" where
  \<comment> \<open>\<open>x[key]\<close> with a string key.\<close>
  "py_getitem (JObj kvs) key = (case map_of kvs key of None \<Rightarrow> Inl KeyError | Some v \<Rightarrow> Inr v)"
| "py_getitem _ key = Inl TypeError"

definition list_index :: "'a list \<Rightarrow> int \<Rightarrow> error + 'a" where
  \<comment> \<open>\<open>xs[i]\<close> on a list: \<open>xs[-1]\<close> is the last element, and an index outside
      \<open>-len(xs) .. len(xs) - 1\<close> raises IndexError.\<close>
  "list_index xs i =
     (if 0 \<le> i \<and> i < int (length xs) then Inr (xs ! nat i)
      else if i < 0 \<and> - i \<le> int (length xs) then Inr (xs ! nat (int (length xs) + i))
      else Inl IndexError)"

fun py_index :: "json \<Rightarrow> int \<Rightarrow> error + json" where
  \<comment> \<open>\<open>x[i]\<close> with an integer index.\<close>
  "py_index (JArr xs) i = list_index xs i"
| "py_index (JStr s) i = (case list_index s i of Inl e \<Rightarrow> Inl e | Inr c \<Rightarrow> Inr (JStr [c]))"
| "py_index (JObj kvs) i = Inl KeyError"
| "py_index _ i = Inl TypeError"

definition is_digit :: "char \<Rightarrow> bool" where
  "is_digit c = (48 \<le> (of_char c :: nat) \<and> (of_char c :: nat) \<le> 57)"

definition py_int :: "string \<Rightarrow> error + int" where
  \<comment> \<open>\<open>int(s)\<close> on a string of decimal digits, the only strings the program converts.\<close>
  "py_int s =
     (if s \<noteq> [] \<and> list_all is_digit s
      then Inr (foldl (\<lambda>a c. 10 * a + (int (of_char c) - 48)) 0 s)
      else Inl ValueError)"

section \<open>get_changed_packages\<close>

record package =
  name :: string
  scope :: string
  files :: "string list"
  types :: "string set"

text \<open>
  The program's surroundings, one value per run: the text of the commit-message file
  (\<open>sys.argv[1]\<close> and the read, either of which can raise), the decoded output of
  \<open>git diff --cached --name-only\<close> (or the exception of \<open>check_output\<close>), the name a
  package's \<open>package.json\<close> declares (\<open>get_package_json_name\<close>, which absorbs its own
  errors), the element \<open>next(iter(s))\<close> yields for a set, the answers to the two
  \<open>prompt_user\<close> questions, the outcome of the completion request, and the lines that
  \<open>input()\<close> reads, end of input after the last. Loading the configuration
  (\<open>Config()\<close>) and writing the commit-message file are taken to succeed;
  \<open>prompt_user\<close> and \<open>generate_ai_prompt\<close> catch their own exceptions.
\<close>

datatype completion =
    Unavailable  \<comment> \<open>\<open>HAS_OPENAI\<close> is false\<close>
  | Raised       \<comment> \<open>building the client, the request or reading its content raised\<close>
  | Unparsable   \<comment> \<open>\<open>json.loads\<close> raised\<close>
  | Parsed json  \<comment> \<open>\<open>json.loads\<close> returned this value\<close>

record env =
  commit_msg :: "error + string"
  staged_names :: "error + string"
  manifest :: "string \<Rightarrow> string option"
  first_of :: "string set \<Rightarrow> string"
  want_ai :: bool
  completion :: completion
  tty_lines :: "string list"
  use_suggested :: bool

fun dict_append :: "(string \<times> string list) list \<Rightarrow> string \<Rightarrow> string \<Rightarrow> (string \<times> string list) list" where
  \<comment> \<open>\<open>if k not in packages: packages[k] = []\<close> then \<open>packages[k].append(file)\<close>,
      on a dict kept as its items in insertion order.\<close>
  "dict_append [] k file = [(k, [file])]"
| "dict_append ((k', fs) # rest) k file =
     (if k' = k then (k', fs @ [file]) # rest else (k', fs) # dict_append rest k file)"

definition package_key :: "string \<Rightarrow> string option" where
  \<comment> \<open>The dict key one non-empty line of the file list is stored under; \<open>None\<close> when
      the line is dropped (\<open>len(parts) > 1\<close> fails).\<close>
  "package_key file =
     (if startswith file ''packages/''
      then (let parts = py_split CHR ''/'' file
            in if length parts > 1 then Some (''packages/'' @ parts ! 1) else None)
      else Some ''root'')"

definition group_file :: "(string \<times> string list) list \<Rightarrow> string \<Rightarrow> (string \<times> string list) list" where
  \<comment> \<open>One round of the loop over \<open>changed_files\<close>.\<close>
  "group_file packages file =
     (if file = [] then packages
      else case package_key file of
             None \<Rightarrow> packages
           | Some pkg_path \<Rightarrow> dict_append packages pkg_path file)"

definition collect_packages :: "string list \<Rightarrow> (string \<times> string list) list" where
  \<comment> \<open>The dict \<open>packages\<close> after the loop.\<close>
  "collect_packages changed_files = foldl group_file [] changed_files"

definition make_package :: "(string \<Rightarrow> string option) \<Rightarrow> string \<times> string list \<Rightarrow> package" where
  \<comment> \<open>One round of the loop over \<open>packages.items()\<close>; \<open>xs[-1]\<close> of a split is its last
      piece, a split being never empty.\<close>
  "make_package mf item =
     (let pkg_path = fst item; fs = snd item;
          nm = (if pkg_path = ''root'' then ''root''
                else case mf pkg_path of
                       None \<Rightarrow> last (py_split CHR ''/'' pkg_path)
                     | Some pkg_name \<Rightarrow>
                         if pkg_name \<noteq> [] then pkg_name
                         else last (py_split CHR ''/'' pkg_path));
          sc = (if pkg_path = ''root'' then ''root''
                else case mf pkg_path of
                       None \<Rightarrow> last (py_split CHR ''/'' pkg_path)
                     | Some pkg_name \<Rightarrow>
                         if pkg_name \<noteq> [] then last (py_split CHR ''/'' pkg_name)
                         else last (py_split CHR ''/'' pkg_path))
      in \<lparr>name = nm, scope = sc, files = fs, types = detect_change_types fs\<rparr>)"

definition get_changed_packages :: "env \<Rightarrow> error + package list" where
  "get_changed_packages e =
     (case staged_names e of
        Inl err \<Rightarrow> Inl err
      | Inr out \<Rightarrow>
          Inr (map (make_package (manifest e))
                 (collect_packages (py_split CHR ''\<newline>'' (py_strip out)))))"

section \<open>format_commit_message\<close>

definition next_iter :: "(string set \<Rightarrow> string) \<Rightarrow> string set \<Rightarrow> error + string" where
  \<comment> \<open>\<open>next(iter(s))\<close>: the first element in the set's iteration order, which the
      program does not control.\<close>
  "next_iter fo s = (if s = {} then Inl StopIteration else Inr (fo s))"

definition parse_header :: "string \<Rightarrow> error + string \<times> string" where
  \<comment> \<open>Lines 158 to 163, the branch for a message with a colon: the commit type and
      the description taken from the message.\<close>
  "parse_header original_msg =
     (case py_split1 CHR '':'' original_msg of
        [type_part, msg] \<Rightarrow>
          Inr (if py_in ''('' type_part \<and> py_in '')'' type_part
               then (case py_split CHR ''('' type_part of [] \<Rightarrow> [] | t # _ \<Rightarrow> t)
               else type_part,
               py_strip msg)
      | _ \<Rightarrow> Inl ValueError)"

definition format_commit_message ::
  "(string set \<Rightarrow> string) \<Rightarrow> string \<Rightarrow> package \<Rightarrow> string option \<Rightarrow> error + string" where
  "format_commit_message fo original_msg pkg commit_type =
     (if py_in '':'' original_msg
      then (case parse_header original_msg of
              Inl err \<Rightarrow> Inl err
            | Inr (ty, msg) \<Rightarrow> Inr (ty @ ''('' @ scope pkg @ ''): '' @ msg))
      else (case (if commit_type = None \<or> commit_type = Some []
                  then next_iter fo (types pkg) else Inr (the commit_type)) of
              Inl err \<Rightarrow> Inl err
            | Inr ty \<Rightarrow> Inr (ty @ ''('' @ scope pkg @ ''): '' @ original_msg)))"

section \<open>get_ai_suggestion and display_suggestions\<close>

fun get_ai_suggestion :: "completion \<Rightarrow> json" where
  \<comment> \<open>\<open>result.get('suggestions', [])\<close> raises AttributeError on anything but a dict,
      and the \<open>except\<close> turns every exception into \<open>None\<close>.\<close>
  "get_ai_suggestion Unavailable = JNull"
| "get_ai_suggestion Raised = JNull"
| "get_ai_suggestion Unparsable = JNull"
| "get_ai_suggestion (Parsed (JObj kvs)) =
     (case map_of kvs ''suggestions'' of None \<Rightarrow> JArr [] | Some v \<Rightarrow> v)"
| "get_ai_suggestion (Parsed _) = JNull"

definition show_suggestion :: "json \<Rightarrow> error + unit" where
  \<comment> \<open>The four fields the display loop reads of one suggestion, in its order.\<close>
  "show_suggestion suggestion =
     (case py_getitem suggestion ''message'' of Inl err \<Rightarrow> Inl err | Inr _ \<Rightarrow>
      case py_getitem suggestion ''type'' of Inl err \<Rightarrow> Inl err | Inr _ \<Rightarrow>
      case py_getitem suggestion ''scope'' of Inl err \<Rightarrow> Inl err | Inr _ \<Rightarrow>
      case py_getitem suggestion ''explanation'' of Inl err \<Rightarrow> Inl err | Inr _ \<Rightarrow> Inr ())"

fun show_all :: "json list \<Rightarrow> error + unit" where
  "show_all [] = Inr ()"
| "show_all (s # ss) = (case show_suggestion s of Inl err \<Rightarrow> Inl err | Inr _ \<Rightarrow> show_all ss)"

fun selection_loop :: "json \<Rightarrow> string list \<Rightarrow> error + json" where
  \<comment> \<open>The \<open>while True\<close> loop, one round per line read; \<open>input()\<close> raises EOFError
      when no line is left, so on an input that ends the loop ends.\<close>
  "selection_loop suggestions [] = Inl EOFError"
| "selection_loop suggestions (line # rest) =
     (let choice = py_strip line
      in if choice = [] then Inr JNull
         else if choice \<in> set [''1'', ''2'', ''3'']
         then (case py_int choice of
                 Inl err \<Rightarrow> Inl err
               | Inr i \<Rightarrow>
                   (case py_index suggestions (i - 1) of
                      Inl err \<Rightarrow> Inl err
                    | Inr s \<Rightarrow> py_getitem s ''message''))
         else selection_loop suggestions rest)"

definition display_suggestions :: "json \<Rightarrow> string list \<Rightarrow> error + json" where
  "display_suggestions suggestions lines =
     (case py_iter suggestions of
        Inl err \<Rightarrow> Inl err
      | Inr xs \<Rightarrow>
          (case show_all xs of
             Inl err \<Rightarrow> Inl err
           | Inr _ \<Rightarrow> selection_loop suggestions lines))"

section \<open>main\<close>

record outcome =
  exit_code :: int
  written :: "string option"

fun write_chosen :: "json \<Rightarrow> outcome" where
  \<comment> \<open>\<open>open(commit_msg_file, 'w')\<close> empties the file, then \<open>f.write\<close> takes a \<open>str\<close>
      and raises TypeError on anything else.\<close>
  "write_chosen (JStr s) = \<lparr>exit_code = 0, written = Some s\<rparr>"
| "write_chosen _ = \<lparr>exit_code = 1, written = Some []\<rparr>"

definition ai_flow :: "env \<Rightarrow> outcome option" where
  \<comment> \<open>Lines 316 to 327: \<open>Some\<close> when the run ends there (a chosen message written, or
      an exception on its way to the handler), \<open>None\<close> when it goes on to the fallback.\<close>
  "ai_flow e =
     (if want_ai e
      then (let suggestions = get_ai_suggestion (completion e)
            in if truthy suggestions
               then (case display_suggestions suggestions (tty_lines e) of
                       Inl err \<Rightarrow> Some \<lparr>exit_code = 1, written = None\<rparr>
                     | Inr chosen_message \<Rightarrow>
                         if truthy chosen_message then Some (write_chosen chosen_message)
                         else None)
               else None)
      else None)"

definition fallback_message :: "(string set \<Rightarrow> string) \<Rightarrow> string \<Rightarrow> package list \<Rightarrow> error + string" where
  \<comment> \<open>Lines 330 to 338.\<close>
  "fallback_message fo original_msg packages =
     (if length packages > 1
      then (case list_index packages 0 of Inl err \<Rightarrow> Inl err | Inr main_pkg \<Rightarrow>
            case next_iter fo (types main_pkg) of Inl err \<Rightarrow> Inl err | Inr main_type \<Rightarrow>
            case format_commit_message fo original_msg main_pkg (Some main_type) of
              Inl err \<Rightarrow> Inl err
            | Inr new_msg \<Rightarrow>
                Inr (new_msg @ ''\<newline>\<newline>Affected packages:\<newline>''
                       @ py_join ''\<newline>'' (map (\<lambda>p. ''- '' @ name p) packages)))
      else (case list_index packages 0 of Inl err \<Rightarrow> Inl err | Inr pkg \<Rightarrow>
            case next_iter fo (types pkg) of Inl err \<Rightarrow> Inl err | Inr main_type \<Rightarrow>
            format_commit_message fo original_msg pkg (Some main_type)))"

definition main :: "env \<Rightarrow> outcome" where
  \<comment> \<open>The exit status and what the commit-message file is overwritten with, if it is.
      Every \<open>Inl\<close> is an exception that reaches \<open>except Exception\<close>: exit status 1.
      \<open>sys.exit(0)\<close> raises SystemExit, which that handler does not catch.\<close>
  "main e =
     (case commit_msg e of
        Inl err \<Rightarrow> \<lparr>exit_code = 1, written = None\<rparr>
      | Inr text \<Rightarrow>
          (let original_msg = py_strip text
           in if startswith original_msg ''Merge'' then \<lparr>exit_code = 0, written = None\<rparr>
              else (case get_changed_packages e of
                      Inl err \<Rightarrow> \<lparr>exit_code = 1, written = None\<rparr>
                    | Inr packages \<Rightarrow>
                        if packages = [] then \<lparr>exit_code = 0, written = None\<rparr>
                        else (case ai_flow e of
                                Some out \<Rightarrow> out
                              | None \<Rightarrow>
                                  (case fallback_message (first_of e) original_msg packages of
                                     Inl err \<Rightarrow> \<lparr>exit_code = 1, written = None\<rparr>
                                   | Inr new_msg \<Rightarrow>
                                       if use_suggested e
                                       then \<lparr>exit_code = 0, written = Some new_msg\<rparr>
                                       else \<lparr>exit_code = 0, written = None\<rparr>)))))"


section \<open>Sample inputs\<close>

definition label_order :: "string set \<Rightarrow> string" where
  \<comment> \<open>One possible iteration order of a set of labels.\<close>
  "label_order s =
     (if ''test'' \<in> s then ''test'' else if ''docs'' \<in> s then ''docs''
      else if ''style'' \<in> s then ''style'' else if ''chore'' \<in> s then ''chore''
      else if ''fix'' \<in> s then ''fix'' else ''feat'')"

definition no_manifest :: "string \<Rightarrow> string option" where
  \<comment> \<open>No package declares a name.\<close>
  "no_manifest pkg_path = None"

definition sample_env :: env where
  \<comment> \<open>Two packages staged, the message without a colon, the AI step declined, the
      suggested message accepted.\<close>
  "sample_env =
     \<lparr>commit_msg = Inr ''improve build\<newline>'',
      staged_names = Inr ''packages/core/package.json\<newline>packages/ui/tsconfig.json\<newline>'',
      manifest = no_manifest, first_of = label_order,
      want_ai = False, completion = Unavailable, tty_lines = [], use_suggested = True\<rparr>"

definition no_repo_env :: env where
  \<comment> \<open>The same run outside a repository: the query for the staged names fails.\<close>
  "no_repo_env = sample_env\<lparr>staged_names := Inl CalledProcessError\<rparr>"


datatype sugg = Sugg string string string string string

fun sugg_json :: "sugg \<Rightarrow> json" where
  \<comment> \<open>A suggestion as the system prompt of \<open>get_ai_suggestion\<close> asks for it.\<close>
  "sugg_json (Sugg message explanation ty sc description) =
     JObj [(''message'', JStr message), (''explanation'', JStr explanation),
           (''type'', JStr ty), (''scope'', JStr sc), (''description'', JStr description)]"

fun sugg_message :: "sugg \<Rightarrow> string" where
  "sugg_message (Sugg message explanation ty sc description) = message"

definition sample_suggs :: "sugg list" where
  "sample_suggs =
     [Sugg ''feat(core): a'' ''first'' ''feat'' ''core'' ''a'',
      Sugg ''fix(core): b'' ''second'' ''fix'' ''core'' ''b'',
      Sugg ''chore(core): c'' ''third'' ''chore'' ''core'' ''c'',
      Sugg ''docs(core): d'' ''fourth'' ''docs'' ''core'' ''d'']"

section \<open>Properties of the classifier\<close>

lemma foldl_add_type:
  "foldl add_type T fs = T \<union> {l. \<exists>f \<in> set fs. classify_file f = Some l}"
proof (induction fs arbitrary: T)
  case Nil
  show ?case by simp
next
  case (Cons f fs)
  show ?case
    unfolding foldl_Cons Cons.IH
    by (cases "classify_file f") (auto simp: add_type_def)
qed

lemma detect_change_types_eq:
  "detect_change_types fs =
     (if \<forall>f \<in> set fs. classify_file f = None then {''feat''}
      else {l. \<exists>f \<in> set fs. classify_file f = Some l})"
proof -
  have "{l. \<exists>f \<in> set fs. classify_file f = Some l} = {}
          \<longleftrightarrow> (\<forall>f \<in> set fs. classify_file f = None)"
    by (auto simp: not_Some_eq [symmetric] simp del: not_Some_eq)
  then show ?thesis
    by (simp add: detect_change_types_def foldl_add_type del: Collect_empty_eq)
qed

lemma classify_file_labels:
  "classify_file f = Some l \<Longrightarrow> l \<in> {''test'', ''docs'', ''style'', ''chore'', ''fix''}"
  by (auto simp: classify_file_def Let_def split: if_splits)

lemma py_in_lower: "py_in p s \<Longrightarrow> py_in (py_lower p) (py_lower s)"
proof (induction s)
  case Nil
  then show ?case by (simp add: py_lower_def)
next
  case (Cons c cs)
  from Cons.prems have "prefix p (c # cs) \<or> py_in p cs" by simp
  then show ?case
  proof
    assume "prefix p (c # cs)"
    then have "prefix (map lower_char p) (map lower_char (c # cs))"
      by (rule map_mono_prefix)
    then show ?thesis by (simp add: py_lower_def)
  next
    assume "py_in p cs"
    then have "py_in (py_lower p) (py_lower cs)" by (rule Cons.IH)
    then show ?thesis by (simp add: py_lower_def)
  qed
qed

lemma lower_markers:
  "py_lower ''.test.'' = ''.test.''" "py_lower ''.spec.'' = ''.spec.''"
  "py_lower ''/tests/'' = ''/tests/''" "py_lower ''fix'' = ''fix''"
  "py_lower ''bug'' = ''bug''" "py_lower ''patch'' = ''patch''"
  by (simp_all add: py_lower_def lower_char_def)

lemma is_test_path_iff:
  "is_test_path x \<longleftrightarrow> py_in ''.test.'' x \<or> py_in ''.spec.'' x \<or> py_in ''/tests/'' x"
  by (simp add: is_test_path_def)

lemma is_fix_path_iff:
  "is_fix_path x \<longleftrightarrow> py_in ''fix'' x \<or> py_in ''bug'' x \<or> py_in ''patch'' x"
  by (simp add: is_fix_path_def)

lemma is_test_path_lower: "is_test_path f \<Longrightarrow> is_test_path (py_lower f)"
  unfolding is_test_path_iff using py_in_lower [of _ f] lower_markers by fastforce

lemma is_fix_path_lower: "is_fix_path f \<Longrightarrow> is_fix_path (py_lower f)"
  unfolding is_fix_path_iff using py_in_lower [of _ f] lower_markers by fastforce

lemma classify_file_None:
  "classify_file f = None \<longleftrightarrow>
     \<not> is_test_path (py_lower f) \<and> \<not> is_docs_path (py_lower f) \<and> \<not> is_style_path (py_lower f)
     \<and> \<not> is_chore_name (py_lower (path_name f)) \<and> \<not> is_fix_path (py_lower f)"
  by (simp add: classify_file_def Let_def)

text \<open>
  C4. A path that matches a test marker (\<open>.test.\<close>, \<open>.spec.\<close> or \<open>/tests/\<close>) and a fix
  keyword (\<open>fix\<close>, \<open>bug\<close> or \<open>patch\<close>), as written or after lower-casing, is labelled
  \<open>test\<close> and not \<open>fix\<close>: the file adds \<open>test\<close> to the set of types, alone it gives
  exactly the set with \<open>test\<close>, and when \<open>fix\<close> is in the result for a longer list,
  another file, one without a test marker, has put it there.
\<close>

theorem test_before_fix:
  assumes "is_test_path f \<or> is_test_path (py_lower f)"
      and "is_fix_path f \<or> is_fix_path (py_lower f)"
  shows "classify_file f = Some ''test'' \<and> classify_file f \<noteq> Some ''fix''
         \<and> add_type T f = insert ''test'' T
         \<and> detect_change_types [f] = {''test''}
         \<and> (''fix'' \<in> detect_change_types (f # fs) \<longrightarrow>
              (\<exists>g \<in> set fs. \<not> is_test_path (py_lower g) \<and> is_fix_path (py_lower g)))"
proof -
  from assms(1) have t: "is_test_path (py_lower f)"
    using is_test_path_lower by blast
  then have c: "classify_file f = Some ''test''"
    by (simp add: classify_file_def Let_def)
  have fx: "classify_file g = Some ''fix'' \<Longrightarrow> \<not> is_test_path (py_lower g) \<and> is_fix_path (py_lower g)" for g
    by (simp add: classify_file_def Let_def split: if_splits)
  have "''fix'' \<in> detect_change_types (f # fs) \<Longrightarrow> \<exists>g \<in> set fs. classify_file g = Some ''fix''"
    using c by (auto simp: detect_change_types_eq split: if_splits)
  with fx have last: "''fix'' \<in> detect_change_types (f # fs) \<longrightarrow>
              (\<exists>g \<in> set fs. \<not> is_test_path (py_lower g) \<and> is_fix_path (py_lower g))"
    by blast
  from c have "detect_change_types [f] = {''test''}"
    by (auto simp: detect_change_types_eq)
  with c last show ?thesis by (simp add: add_type_def)
qed

theorem test_before_fix_witness:
  "(is_test_path ''src/feature/fix.test.ts'' \<or> is_test_path (py_lower ''src/feature/fix.test.ts''))
   \<and> (is_fix_path ''src/feature/fix.test.ts'' \<or> is_fix_path (py_lower ''src/feature/fix.test.ts''))
   \<and> classify_file ''src/feature/fix.test.ts'' = Some ''test''
   \<and> detect_change_types [''src/feature/fix.test.ts''] = {''test''}"
proof -
  have a: "is_test_path ''src/feature/fix.test.ts'' \<or> is_test_path (py_lower ''src/feature/fix.test.ts'')"
    by (simp add: is_test_path_def)
  have b: "is_fix_path ''src/feature/fix.test.ts'' \<or> is_fix_path (py_lower ''src/feature/fix.test.ts'')"
    by (simp add: is_fix_path_def)
  show ?thesis using a b test_before_fix [OF a b] by simp
qed

text \<open>
  C5. The classifier never returns the empty set, and when no file of the list matches
  a test, docs, style, chore or fix marker the result is exactly the set with \<open>feat\<close>.
\<close>

theorem detect_change_types_nonempty:
  "detect_change_types fs \<noteq> {}
   \<and> ((\<forall>f \<in> set fs.
          \<not> is_test_path (py_lower f) \<and> \<not> is_docs_path (py_lower f)
          \<and> \<not> is_style_path (py_lower f) \<and> \<not> is_chore_name (py_lower (path_name f))
          \<and> \<not> is_fix_path (py_lower f))
        \<longrightarrow> detect_change_types fs = {''feat''})"
proof -
  have "detect_change_types fs \<noteq> {}"
    by (auto simp: detect_change_types_def Let_def)
  moreover have "detect_change_types fs = {''feat''}"
    if "\<forall>f \<in> set fs.
          \<not> is_test_path (py_lower f) \<and> \<not> is_docs_path (py_lower f)
          \<and> \<not> is_style_path (py_lower f) \<and> \<not> is_chore_name (py_lower (path_name f))
          \<and> \<not> is_fix_path (py_lower f)"
  proof -
    from that have "\<forall>f \<in> set fs. classify_file f = None"
      unfolding classify_file_None by blast
    then show ?thesis by (simp add: detect_change_types_eq)
  qed
  ultimately show ?thesis by blast
qed

theorem detect_change_types_nonempty_witness:
  "\<not> is_test_path (py_lower ''src/index.ts'') \<and> \<not> is_docs_path (py_lower ''src/index.ts'')
   \<and> \<not> is_style_path (py_lower ''src/index.ts'')
   \<and> \<not> is_chore_name (py_lower (path_name ''src/index.ts''))
   \<and> \<not> is_fix_path (py_lower ''src/index.ts'')
   \<and> detect_change_types [''src/index.ts''] = {''feat''}"
proof -
  have h: "\<not> is_test_path (py_lower ''src/index.ts'') \<and> \<not> is_docs_path (py_lower ''src/index.ts'')
   \<and> \<not> is_style_path (py_lower ''src/index.ts'')
   \<and> \<not> is_chore_name (py_lower (path_name ''src/index.ts''))
   \<and> \<not> is_fix_path (py_lower ''src/index.ts'')"
    by code_simp
  show ?thesis
    using h detect_change_types_nonempty [of "[''src/index.ts'']"] by simp
qed

text \<open>
  C10. \<open>feat\<close> is in the classifier's result only when the result is the singleton of
  \<open>feat\<close>: as soon as one file of the list matched a category, \<open>feat\<close> is absent.
\<close>

theorem feat_only_alone:
  "(''feat'' \<in> detect_change_types fs \<longrightarrow> detect_change_types fs = {''feat''})
   \<and> ((\<exists>f \<in> set fs. classify_file f \<noteq> None) \<longrightarrow> ''feat'' \<notin> detect_change_types fs)"
proof -
  have nf: "classify_file f \<noteq> Some ''feat''" for f
    using classify_file_labels [of f "''feat''"] by auto
  show ?thesis
    by (auto simp: detect_change_types_eq nf)
qed

theorem feat_only_alone_witness:
  "(\<exists>f \<in> set [''src/index.ts'', ''README.md'']. classify_file f \<noteq> None)
   \<and> ''feat'' \<notin> detect_change_types [''src/index.ts'', ''README.md'']
   \<and> ''feat'' \<in> detect_change_types [''src/index.ts'']
   \<and> detect_change_types [''src/index.ts''] = {''feat''}"
proof -
  have h: "\<exists>f \<in> set [''src/index.ts'', ''README.md'']. classify_file f \<noteq> None"
    by code_simp
  have k: "''feat'' \<in> detect_change_types [''src/index.ts'']"
    by code_simp
  show ?thesis
    using h k feat_only_alone [of "[''src/index.ts'', ''README.md'']"]
      feat_only_alone [of "[''src/index.ts'']"] by blast
qed

section \<open>Properties of the formatter\<close>

lemma py_in_single: "py_in [c] s \<longleftrightarrow> c \<in> set s"
  by (induction s) auto

lemma split1_acc_found:
  "c \<in> set s \<Longrightarrow>
     split1_acc c cur s = [rev cur @ takeWhile (\<lambda>x. x \<noteq> c) s, tl (dropWhile (\<lambda>x. x \<noteq> c) s)]"
  by (induction s arbitrary: cur) auto

lemma split_acc_unfold:
  "split_acc c cur s =
     (rev cur @ takeWhile (\<lambda>x. x \<noteq> c) s)
       # (case dropWhile (\<lambda>x. x \<noteq> c) s of [] \<Rightarrow> [] | _ # r \<Rightarrow> split_acc c [] r)"
proof (induction s arbitrary: cur)
  case Nil
  show ?case by simp
next
  case (Cons a s)
  show ?case
  proof (cases "a = c")
    case True
    then show ?thesis by simp
  next
    case False
    then show ?thesis using Cons.IH [of "a # cur"] by simp
  qed
qed

lemma py_split_first:
  "(case py_split c s of [] \<Rightarrow> [] | t # _ \<Rightarrow> t) = takeWhile (\<lambda>x. x \<noteq> c) s"
  unfolding py_split_def by (subst split_acc_unfold) simp

lemma parse_header_colon:
  assumes "CHR '':'' \<in> set m"
  shows "parse_header m =
           Inr (let pre = takeWhile (\<lambda>c. c \<noteq> CHR '':'') m
                in if CHR ''('' \<in> set pre \<and> CHR '')'' \<in> set pre
                   then takeWhile (\<lambda>c. c \<noteq> CHR ''('') pre else pre,
                py_strip (tl (dropWhile (\<lambda>c. c \<noteq> CHR '':'') m)))"
  using assms
  by (simp add: parse_header_def py_split1_def split1_acc_found py_in_single py_split_first Let_def)

text \<open>
  C7. For a message with a colon, the formatter takes the type from the text before
  the first colon (the text before its first opening parenthesis when that prefix holds
  an opening and a closing parenthesis, otherwise the whole prefix), takes the text
  after the first colon, trimmed, as the description, and returns the type, the
  package's scope in parentheses, a colon, a space and the description. The default
  type does not occur in the result.
\<close>

theorem format_with_colon:
  assumes "CHR '':'' \<in> set m"
  shows "format_commit_message fo m pkg default_type =
           Inr ((let pre = takeWhile (\<lambda>c. c \<noteq> CHR '':'') m
                 in if CHR ''('' \<in> set pre \<and> CHR '')'' \<in> set pre
                    then takeWhile (\<lambda>c. c \<noteq> CHR ''('') pre else pre)
                @ ''('' @ scope pkg @ ''): ''
                @ py_strip (tl (dropWhile (\<lambda>c. c \<noteq> CHR '':'') m)))"
  using assms
  by (simp add: format_commit_message_def py_in_single parse_header_colon Let_def)

theorem format_with_colon_witness:
  "CHR '':'' \<in> set ''fix(api): add  endpoint ''
   \<and> format_commit_message label_order ''fix(api): add  endpoint ''
        \<lparr>name = ''@org/core'', scope = ''core'', files = [''a.ts''], types = {''feat''}\<rparr>
        (Some ''docs'')
      = Inr ''fix(core): add  endpoint''"
proof -
  have h: "CHR '':'' \<in> set ''fix(api): add  endpoint ''" by simp
  show ?thesis
    using h format_with_colon [OF h, of label_order
        "\<lparr>name = ''@org/core'', scope = ''core'', files = [''a.ts''], types = {''feat''}\<rparr>" "Some ''docs''"]
    by (simp add: py_strip_def is_space_def)
qed

lemma py_strip_leading_space: "py_strip (CHR '' '' # d) = py_strip d"
  by (simp add: py_strip_def is_space_def)

text \<open>
  C9, amended. A message \<open>t(s): d\<close> whose type has neither a colon nor an opening
  parenthesis, whose scope has no colon and whose description is trimmed is formatted,
  for a package whose scope has no colon, to \<open>t(scope): d\<close>, and extracting type and
  description from that result gives \<open>t\<close> and \<open>d\<close> again.
\<close>

theorem format_roundtrip:
  assumes "CHR '':'' \<notin> set t" and "CHR ''('' \<notin> set t" and "CHR '':'' \<notin> set s"
      and "CHR '':'' \<notin> set (scope pkg)" and "py_strip d = d"
  shows "format_commit_message fo (t @ ''('' @ s @ ''): '' @ d) pkg ct
           = Inr (t @ ''('' @ scope pkg @ ''): '' @ d)
         \<and> parse_header (t @ ''('' @ scope pkg @ ''): '' @ d) = Inr (t, d)"
proof -
  have pre: "takeWhile (\<lambda>c. c \<noteq> CHR '':'') (t @ ''('' @ x @ ''): '' @ d) = t @ ''('' @ x @ '')''"
    if "CHR '':'' \<notin> set x" for x
    using assms(1) that by (simp add: takeWhile_append)
  have post: "dropWhile (\<lambda>c. c \<noteq> CHR '':'') (t @ ''('' @ x @ ''): '' @ d) = '': '' @ d"
    if "CHR '':'' \<notin> set x" for x
    using assms(1) that by (simp add: dropWhile_append)
  have ty: "takeWhile (\<lambda>c. c \<noteq> CHR ''('') (t @ ''('' @ x @ '')'') = t" for x
    using assms(2) by (simp add: takeWhile_append)
  have colon: "CHR '':'' \<in> set (t @ ''('' @ x @ ''): '' @ d)" for x
    by simp
  have ph: "parse_header (t @ ''('' @ x @ ''): '' @ d) = Inr (t, d)" if "CHR '':'' \<notin> set x" for x
    unfolding parse_header_colon [OF colon] pre [OF that] post [OF that] Let_def
    using ty [of x] assms(5) by (simp add: py_strip_leading_space)
  show ?thesis
    using ph [OF assms(3)] ph [OF assms(4)]
    by (simp add: format_commit_message_def py_in_single)
qed

theorem format_roundtrip_witness:
  "format_commit_message label_order ''fix(api): add endpoint''
        \<lparr>name = ''@org/core'', scope = ''core'', files = [''a.ts''], types = {''feat''}\<rparr> None
      = Inr ''fix(core): add endpoint''
   \<and> parse_header ''fix(core): add endpoint'' = Inr (''fix'', ''add endpoint'')"
proof -
  have a: "CHR '':'' \<notin> set ''fix''" and b: "CHR ''('' \<notin> set ''fix''"
    and c: "CHR '':'' \<notin> set ''api''" by simp_all
  have d: "CHR '':'' \<notin> set (scope \<lparr>name = ''@org/core'', scope = ''core'', files = [''a.ts''], types = {''feat''}\<rparr>)"
    by simp
  have e: "py_strip ''add endpoint'' = ''add endpoint''"
    by (simp add: py_strip_def is_space_def)
  show ?thesis
    using format_roundtrip [OF a b c d e, of label_order None] by simp
qed

text \<open>
  C9 as stated fails: with a colon in the message's scope the type is cut at that
  colon and the description changes; with an opening parenthesis in the type the type
  is cut there; with a colon in the package's scope the formatted message no longer
  gives back its type and description.
\<close>

theorem format_roundtrip_counterexample:
  "parse_header ''feat(a:b): x'' = Inr (''feat(a'', ''b): x'')
   \<and> format_commit_message label_order ''feat(a:b): x''
        \<lparr>name = ''core'', scope = ''core'', files = [''a.ts''], types = {''feat''}\<rparr> None
      = Inr ''feat(a(core): b): x''
   \<and> parse_header ''feat(a(core): b): x'' = Inr (''feat'', ''b): x'')
   \<and> format_commit_message label_order ''a(b(s): x''
        \<lparr>name = ''core'', scope = ''core'', files = [''a.ts''], types = {''feat''}\<rparr> None
      = Inr ''a(core): x''
   \<and> format_commit_message label_order ''fix(s): x''
        \<lparr>name = ''a:b'', scope = ''a:b'', files = [''a.ts''], types = {''feat''}\<rparr> None
      = Inr ''fix(a:b): x''
   \<and> parse_header ''fix(a:b): x'' = Inr (''fix(a'', ''b): x'')"
  by code_simp

section \<open>Properties of the selector\<close>

lemma show_all_suggs: "show_all (map sugg_json ss) = Inr ()"
proof (induction ss)
  case Nil
  show ?case by simp
next
  case (Cons s ss)
  have "show_suggestion (sugg_json s) = Inr ()"
    by (cases s) (simp add: show_suggestion_def)
  with Cons.IH show ?case by simp
qed

lemma display_suggs:
  "display_suggestions (JArr (map sugg_json ss)) lines = selection_loop (JArr (map sugg_json ss)) lines"
  by (simp add: display_suggestions_def show_all_suggs)

lemma message_of_sugg: "py_getitem (sugg_json s) ''message'' = Inr (JStr (sugg_message s))"
  by (cases s) simp

lemma py_int_choice:
  "py_int ''1'' = Inr 1" "py_int ''2'' = Inr 2" "py_int ''3'' = Inr 3"
  by (simp_all add: py_int_def is_digit_def)

lemma pick_sugg:
  "n < length ss \<Longrightarrow>
     (case py_index (JArr (map sugg_json ss)) (int n) of
        Inl err \<Rightarrow> Inl err
      | Inr s \<Rightarrow> py_getitem s ''message'') = Inr (JStr (sugg_message (ss ! n)))"
  by (simp add: list_index_def message_of_sugg)

lemma loop_raises_only_eof:
  assumes "3 \<le> length ss"
      and "selection_loop (JArr (map sugg_json ss)) lines = Inl err"
  shows "err = EOFError \<and> (\<forall>l \<in> set lines. py_strip l \<notin> {[], ''1'', ''2'', ''3''})"
  using assms(2)
proof (induction lines)
  case Nil
  then show ?case by simp
next
  case (Cons l rest)
  have p0: "(case py_index (JArr (map sugg_json ss)) 0 of Inl err \<Rightarrow> Inl err
             | Inr s \<Rightarrow> py_getitem s ''message'') = Inr (JStr (sugg_message (ss ! 0)))"
  proof -
    from assms(1) have "0 < length ss" by (cases ss) simp_all
    from pick_sugg [OF this] show ?thesis by (simp del: py_index.simps)
  qed
  have p1: "(case py_index (JArr (map sugg_json ss)) 1 of Inl err \<Rightarrow> Inl err
             | Inr s \<Rightarrow> py_getitem s ''message'') = Inr (JStr (sugg_message (ss ! 1)))"
  proof -
    from assms(1) have "1 < length ss" by simp
    from pick_sugg [OF this] show ?thesis by (simp del: py_index.simps)
  qed
  have p2: "(case py_index (JArr (map sugg_json ss)) 2 of Inl err \<Rightarrow> Inl err
             | Inr s \<Rightarrow> py_getitem s ''message'') = Inr (JStr (sugg_message (ss ! 2)))"
  proof -
    from assms(1) have "2 < length ss" by simp
    from pick_sugg [OF this] show ?thesis by (simp del: py_index.simps)
  qed
  from Cons.prems have other: "py_strip l \<notin> {[], ''1'', ''2'', ''3''}"
    by (auto simp: Let_def py_int_choice p0 p1 p2 simp del: py_index.simps split: if_splits)
  with Cons.prems have "selection_loop (JArr (map sugg_json ss)) rest = Inl err"
    by (simp add: Let_def)
  with Cons.IH other show ?case by simp
qed

text \<open>
  C2, amended. For a non-empty sequence of suggestions, a line that is empty after
  trimming returns no selection; a line that after trimming is \<open>1\<close>, \<open>2\<close> or \<open>3\<close> and is
  not above the number of suggestions returns that suggestion's message; a line that
  after trimming is none of these, also a valid index above 3, makes the loop read the
  next line; the end of input raises EOFError. With three suggestions or more EOFError
  is the only exception of the loop, raised after lines that all re-prompt.
\<close>

theorem selection_first_three:
  assumes "ss \<noteq> []"
  shows "(py_strip l = [] \<longrightarrow>
            display_suggestions (JArr (map sugg_json ss)) (l # rest) = Inr JNull)
       \<and> (py_strip l = ''1'' \<longrightarrow>
            display_suggestions (JArr (map sugg_json ss)) (l # rest)
              = Inr (JStr (sugg_message (ss ! 0))))
       \<and> (py_strip l = ''2'' \<and> 2 \<le> length ss \<longrightarrow>
            display_suggestions (JArr (map sugg_json ss)) (l # rest)
              = Inr (JStr (sugg_message (ss ! 1))))
       \<and> (py_strip l = ''3'' \<and> 3 \<le> length ss \<longrightarrow>
            display_suggestions (JArr (map sugg_json ss)) (l # rest)
              = Inr (JStr (sugg_message (ss ! 2))))
       \<and> (py_strip l \<notin> {[], ''1'', ''2'', ''3''} \<longrightarrow>
            display_suggestions (JArr (map sugg_json ss)) (l # rest)
              = display_suggestions (JArr (map sugg_json ss)) rest)
       \<and> display_suggestions (JArr (map sugg_json ss)) [] = Inl EOFError
       \<and> (3 \<le> length ss \<and> display_suggestions (JArr (map sugg_json ss)) lines = Inl err \<longrightarrow>
            err = EOFError \<and> (\<forall>x \<in> set lines. py_strip x \<notin> {[], ''1'', ''2'', ''3''}))"
proof -
  have c0: "py_strip l = [] \<Longrightarrow> selection_loop (JArr (map sugg_json ss)) (l # rest) = Inr JNull"
    by simp
  have c1: "selection_loop (JArr (map sugg_json ss)) (l # rest) = Inr (JStr (sugg_message (ss ! 0)))"
    if "py_strip l = ''1''"
    using that assms pick_sugg [of 0 ss]
    by (simp add: Let_def py_int_choice del: py_index.simps)
  have c2: "selection_loop (JArr (map sugg_json ss)) (l # rest) = Inr (JStr (sugg_message (ss ! 1)))"
    if "py_strip l = ''2''" "2 \<le> length ss"
    using that pick_sugg [of 1 ss]
    by (simp add: Let_def py_int_choice del: py_index.simps)
  have c3: "selection_loop (JArr (map sugg_json ss)) (l # rest) = Inr (JStr (sugg_message (ss ! 2)))"
    if "py_strip l = ''3''" "3 \<le> length ss"
    using that pick_sugg [of 2 ss]
    by (simp add: Let_def py_int_choice del: py_index.simps)
  have c4: "selection_loop (JArr (map sugg_json ss)) (l # rest)
              = selection_loop (JArr (map sugg_json ss)) rest"
    if "py_strip l \<notin> {[], ''1'', ''2'', ''3''}"
    using that by (simp add: Let_def)
  have c5: "selection_loop (JArr (map sugg_json ss)) [] = Inl EOFError"
    by simp
  show ?thesis
    unfolding display_suggs
    using c0 c1 c2 c3 c4 c5 loop_raises_only_eof [of ss lines err] by blast
qed

theorem selection_first_three_witness:
  "sample_suggs \<noteq> [] \<and> py_strip '' 2 '' = ''2'' \<and> 2 \<le> length sample_suggs
   \<and> py_strip ''9'' \<notin> {[], ''1'', ''2'', ''3''}
   \<and> display_suggestions (JArr (map sugg_json sample_suggs)) [''9'', '' 2 '']
        = Inr (JStr ''fix(core): b'')"
proof -
  have a: "sample_suggs \<noteq> []" by (simp add: sample_suggs_def)
  have b: "py_strip '' 2 '' = ''2''" by (simp add: py_strip_def is_space_def)
  have c: "2 \<le> length sample_suggs" by (simp add: sample_suggs_def)
  have d: "py_strip ''9'' \<notin> {[], ''1'', ''2'', ''3''}" by (simp add: py_strip_def is_space_def)
  have e: "sugg_message (sample_suggs ! 1) = ''fix(core): b''" by (simp add: sample_suggs_def)
  show ?thesis
    using a b c d e selection_first_three [OF a, of "''9''" "['' 2 '']"]
      selection_first_three [OF a, of "'' 2 ''" "[]"]
    by simp
qed

text \<open>
  C2 as stated fails: with one suggestion the input \<open>2\<close> raises IndexError instead of
  re-prompting, and with four suggestions the input \<open>4\<close>, a valid index, re-prompts
  (the empty line after it then skips).
\<close>

theorem selection_counterexample:
  "display_suggestions
     (JArr [sugg_json (Sugg ''feat(core): a'' ''only one'' ''feat'' ''core'' ''a'')]) [''2'']
     = Inl IndexError
   \<and> display_suggestions (JArr (map sugg_json sample_suggs)) [''4'', '''']
     = Inr JNull"
  by code_simp

section \<open>Properties of main\<close>

lemma detect_change_types_not_empty: "detect_change_types fs \<noteq> {}"
  by (simp add: detect_change_types_def Let_def)

lemma changed_packages_types:
  "get_changed_packages e = Inr pkgs \<Longrightarrow> p \<in> set pkgs \<Longrightarrow> types p \<noteq> {}"
  by (auto simp: get_changed_packages_def make_package_def Let_def detect_change_types_not_empty
           split: sum.splits)

lemma format_commit_message_total:
  "types pkg \<noteq> {} \<Longrightarrow> \<exists>out. format_commit_message fo m pkg ct = Inr out"
  by (cases "CHR '':'' \<in> set m")
     (auto simp: format_commit_message_def py_in_single parse_header_colon next_iter_def Let_def)






text \<open>
  C1, amended. If the query for the staged file list fails, for a message that does
  not start with \<open>Merge\<close>, the exception reaches the top-level handler: the run exits
  with status 1 and writes nothing. If the query succeeds and lists no file, the run
  exits early with status 0 and writes nothing.
\<close>

theorem staged_query_failure:
  "(commit_msg e = Inr raw \<and> \<not> startswith (py_strip raw) ''Merge'' \<and> staged_names e = Inl err
      \<longrightarrow> main e = \<lparr>exit_code = 1, written = None\<rparr>)
   \<and> (commit_msg e = Inr raw \<and> staged_names e = Inr out \<and> py_strip out = []
      \<longrightarrow> main e = \<lparr>exit_code = 0, written = None\<rparr>)"
proof -
  have "collect_packages (py_split CHR ''\<newline>'' []) = []"
    by (simp add: collect_packages_def py_split_def group_file_def)
  then show ?thesis
    by (simp add: main_def get_changed_packages_def Let_def)
qed

theorem staged_query_failure_witness:
  "commit_msg no_repo_env = Inr ''improve build\<newline>''
   \<and> \<not> startswith (py_strip ''improve build\<newline>'') ''Merge''
   \<and> staged_names no_repo_env = Inl CalledProcessError
   \<and> main no_repo_env = \<lparr>exit_code = 1, written = None\<rparr>
   \<and> staged_names (sample_env\<lparr>staged_names := Inr ''\<newline>''\<rparr>) = Inr ''\<newline>''
   \<and> py_strip ''\<newline>'' = []
   \<and> main (sample_env\<lparr>staged_names := Inr ''\<newline>''\<rparr>) = \<lparr>exit_code = 0, written = None\<rparr>"
proof -
  have a: "commit_msg no_repo_env = Inr ''improve build\<newline>''"
    and a': "commit_msg (sample_env\<lparr>staged_names := Inr ''\<newline>''\<rparr>) = Inr ''improve build\<newline>''"
    and c: "staged_names no_repo_env = Inl CalledProcessError"
    and d: "staged_names (sample_env\<lparr>staged_names := Inr ''\<newline>''\<rparr>) = Inr ''\<newline>''"
    by (simp_all add: no_repo_env_def sample_env_def)
  have b: "\<not> startswith (py_strip ''improve build\<newline>'') ''Merge''"
    by (simp add: startswith_def py_strip_def is_space_def)
  have f: "py_strip ''\<newline>'' = []"
    by (simp add: py_strip_def is_space_def)
  show ?thesis
    using a b c d f
      staged_query_failure [of no_repo_env "''improve build\<newline>''" CalledProcessError]
      staged_query_failure [of "sample_env\<lparr>staged_names := Inr ''\<newline>''\<rparr>"
                               "''improve build\<newline>''" _ "''\<newline>''"] a'
    by simp
qed

text \<open>
  C1 as stated fails: outside a repository the run exits with status 1.
\<close>

theorem staged_query_failure_counterexample:
  "staged_names no_repo_env = Inl CalledProcessError
   \<and> exit_code (main no_repo_env) = 1"
  by code_simp

text \<open>
  C8. With more than one package, the AI step declined or without a chosen message,
  and the suggested message accepted, the message written is the header formatted for
  the first package with the first element of its types, then a blank line, the line
  \<open>Affected packages:\<close> and one line \<open>- name\<close> per package in the collector's order.
  For the packages core and ui, the message \<open>improve build\<close> and the type chore it is
  the five lines of the claim.
\<close>

theorem multi_package_fallback:
  "(commit_msg e = Inr raw \<and> \<not> startswith (py_strip raw) ''Merge''
      \<and> get_changed_packages e = Inr pkgs \<and> 1 < length pkgs
      \<and> ai_flow e = None \<and> use_suggested e
      \<longrightarrow> (\<exists>header.
             format_commit_message (first_of e) (py_strip raw) (hd pkgs)
               (Some (first_of e (types (hd pkgs)))) = Inr header
           \<and> main e =
               \<lparr>exit_code = 0,
                written = Some (header @ ''\<newline>\<newline>Affected packages:\<newline>''
                                  @ py_join ''\<newline>'' (map (\<lambda>p. ''- '' @ name p) pkgs))\<rparr>))
   \<and> (t1 \<noteq> {} \<and> fo t1 = ''chore''
      \<longrightarrow> fallback_message fo ''improve build''
            [\<lparr>name = ''core'', scope = ''core'', files = f1, types = t1\<rparr>,
             \<lparr>name = ''ui'', scope = ''ui'', files = f2, types = t2\<rparr>]
          = Inr ''chore(core): improve build\<newline>\<newline>Affected packages:\<newline>- core\<newline>- ui'')"
proof -
  have general: "\<exists>header.
             format_commit_message (first_of e) (py_strip raw) (hd pkgs)
               (Some (first_of e (types (hd pkgs)))) = Inr header
           \<and> main e =
               \<lparr>exit_code = 0,
                written = Some (header @ ''\<newline>\<newline>Affected packages:\<newline>''
                                  @ py_join ''\<newline>'' (map (\<lambda>p. ''- '' @ name p) pkgs))\<rparr>"
    if h: "commit_msg e = Inr raw" "\<not> startswith (py_strip raw) ''Merge''"
          "get_changed_packages e = Inr pkgs" "1 < length pkgs"
          "ai_flow e = None" "use_suggested e"
  proof -
    obtain p ps where pk: "pkgs = p # ps" using h(4) by (cases pkgs) auto
    have t: "types p \<noteq> {}"
      using changed_packages_types [OF h(3), of p] pk by simp
    obtain header where f: "format_commit_message (first_of e) (py_strip raw) p
               (Some (first_of e (types p))) = Inr header"
      using format_commit_message_total [OF t] by blast
    have fb: "fallback_message (first_of e) (py_strip raw) pkgs
          = Inr (header @ ''\<newline>\<newline>Affected packages:\<newline>''
                        @ py_join ''\<newline>'' (map (\<lambda>p. ''- '' @ name p) pkgs))"
      using h(4) t f unfolding fallback_message_def pk
      by (simp add: list_index_def next_iter_def)
    have "main e = \<lparr>exit_code = 0,
                written = Some (header @ ''\<newline>\<newline>Affected packages:\<newline>''
                                  @ py_join ''\<newline>'' (map (\<lambda>p. ''- '' @ name p) pkgs))\<rparr>"
      using h pk fb by (simp add: main_def Let_def)
    with f pk show ?thesis by simp
  qed
  have example: "fallback_message fo ''improve build''
            [\<lparr>name = ''core'', scope = ''core'', files = f1, types = t1\<rparr>,
             \<lparr>name = ''ui'', scope = ''ui'', files = f2, types = t2\<rparr>]
          = Inr ''chore(core): improve build\<newline>\<newline>Affected packages:\<newline>- core\<newline>- ui''"
    if "t1 \<noteq> {}" "fo t1 = ''chore''"
    using that
    by (simp add: fallback_message_def list_index_def next_iter_def format_commit_message_def)
  from general example show ?thesis by blast
qed

theorem multi_package_fallback_witness:
  "commit_msg sample_env = Inr ''improve build\<newline>''
   \<and> \<not> startswith (py_strip ''improve build\<newline>'') ''Merge''
   \<and> length (projr (get_changed_packages sample_env)) = 2
   \<and> ai_flow sample_env = None \<and> use_suggested sample_env
   \<and> main sample_env =
       \<lparr>exit_code = 0,
        written = Some ''chore(core): improve build\<newline>\<newline>Affected packages:\<newline>- core\<newline>- ui''\<rparr>
   \<and> fallback_message label_order ''improve build''
            [\<lparr>name = ''core'', scope = ''core'', files = [''packages/core/package.json''],
              types = {''chore''}\<rparr>,
             \<lparr>name = ''ui'', scope = ''ui'', files = [''packages/ui/index.test.ts''],
              types = {''test''}\<rparr>]
          = Inr ''chore(core): improve build\<newline>\<newline>Affected packages:\<newline>- core\<newline>- ui''"
proof -
  have a: "commit_msg sample_env = Inr ''improve build\<newline>''"
    by (simp add: sample_env_def)
  have b: "\<not> startswith (py_strip ''improve build\<newline>'') ''Merge''"
    by (simp add: startswith_def py_strip_def is_space_def)
  have c: "get_changed_packages sample_env =
             Inr [\<lparr>name = ''core'', scope = ''core'', files = [''packages/core/package.json''],
                   types = {''chore''}\<rparr>,
                  \<lparr>name = ''ui'', scope = ''ui'', files = [''packages/ui/tsconfig.json''],
                   types = {''chore''}\<rparr>]"
    by code_simp
  have d: "ai_flow sample_env = None" and u: "use_suggested sample_env"
    by (simp_all add: ai_flow_def sample_env_def)
  have s: "py_strip ''improve build\<newline>'' = ''improve build''"
    by (simp add: py_strip_def is_space_def)
  have fo: "first_of sample_env = label_order"
    by (simp add: sample_env_def)
  have t: "{''chore''} \<noteq> ({} :: string set)" and lo: "label_order {''chore''} = ''chore''"
    by (simp_all add: label_order_def)
  have f: "format_commit_message label_order ''improve build''
             \<lparr>name = ''core'', scope = ''core'', files = [''packages/core/package.json''],
               types = {''chore''}\<rparr> (Some ''chore'') = Inr ''chore(core): improve build''"
    by (simp add: format_commit_message_def)
  show ?thesis
    using a b d u f t lo
      multi_package_fallback [of sample_env "''improve build\<newline>''"
        "[\<lparr>name = ''core'', scope = ''core'', files = [''packages/core/package.json''],
           types = {''chore''}\<rparr>,
          \<lparr>name = ''ui'', scope = ''ui'', files = [''packages/ui/tsconfig.json''],
           types = {''chore''}\<rparr>]"
        "{''chore''}" label_order
        "[''packages/core/package.json'']" "[''packages/ui/index.test.ts'']" "{''test''}"]
    by (simp add: c s fo)
qed

section \<open>Properties of the collector\<close>



















end
